theory Spec2Isabelle
  imports Complex_Main
begin

section \<open>JavaScript values and library functions the routes use\<close>

text \<open>
  The three route handlers (\<^verbatim>\<open>api/ga4/metrics/route.ts\<close>, \<^verbatim>\<open>api/google-ads/metrics/route.ts\<close>
  and the Metricool route) are written in TypeScript. Their own code is embedded below
  function by function; the library functions they call (\<^verbatim>\<open>String.prototype.includes\<close>,
  \<^verbatim>\<open>replace\<close>, \<^verbatim>\<open>split\<close>, \<^verbatim>\<open>parseInt\<close> and the \<^verbatim>\<open>Date\<close> object) follow ECMA-262.
  A thrown exception is the \<open>Inl\<close> branch of a sum, \<^verbatim>\<open>undefined\<close> is \<open>None\<close>. A string is
  the list of the bytes of its UTF-8 encoding.
\<close>

datatype js_error = JsError (err_name: string) (err_message: string)

subsection \<open>Numbers\<close>

text \<open>
  A \<^verbatim>\<open>Number\<close> is \<^verbatim>\<open>NaN\<close> or an IEEE 754 double. \<open>Exact q\<close> is the double whose value is
  the rational \<open>q\<close>. \<open>Rounded q\<close> is the double that rounding makes of the exact value
  \<open>q\<close>: the double nearest to \<open>q\<close> (an infinity when \<open>q\<close> is beyond the largest double),
  as one arithmetic operation on doubles or one conversion of a digit string gives it.
  Which double that is, is not computed.

  \<open>representable q\<close> is a test that \<open>q\<close> is a double, sufficient and not necessary:
  \<open>q = n / 2^k\<close> with \<open>n\<close> up to \<open>2^53\<close> in magnitude and \<open>k\<close> up to 1022. A result that
  passes is exact, since IEEE arithmetic returns a representable result unchanged; a
  result that fails is written \<open>Rounded q\<close>, which is \<open>q\<close> itself should \<open>q\<close> be a double
  after all.
\<close>

datatype number = NaN | Exact rat | Rounded rat

definition representable :: "rat \<Rightarrow> bool" where
  "representable q = (case quotient_of q of (n, d) \<Rightarrow> \<bar>n\<bar> \<le> 2 ^ 53 \<and> d dvd 2 ^ 1022)"

text \<open>The IEEE product and quotient of two doubles.\<close>

definition double_times :: "rat \<Rightarrow> rat \<Rightarrow> number" where
  "double_times a b = (if representable (a * b) then Exact (a * b) else Rounded (a * b))"

definition double_over :: "rat \<Rightarrow> rat \<Rightarrow> number" where
  "double_over a b = (if representable (a / b) then Exact (a / b) else Rounded (a / b))"

text \<open>
  \<^verbatim>\<open>a - b\<close> on numbers: \<^verbatim>\<open>NaN\<close> when either side is. With a rounded operand the result
  is rounded twice; it is still written \<open>Rounded\<close> of the exact difference.
\<close>

definition num_minus :: "number \<Rightarrow> number \<Rightarrow> number" where
  "num_minus a b =
     (case a of NaN \<Rightarrow> NaN
      | Exact x \<Rightarrow>
          (case b of NaN \<Rightarrow> NaN
           | Exact y \<Rightarrow> if representable (x - y) then Exact (x - y) else Rounded (x - y)
           | Rounded y \<Rightarrow> Rounded (x - y))
      | Rounded x \<Rightarrow>
          (case b of NaN \<Rightarrow> NaN | Exact y \<Rightarrow> Rounded (x - y) | Rounded y \<Rightarrow> Rounded (x - y)))"

text \<open>\<^verbatim>\<open>ToIntegerOrInfinity\<close> of a finite number: truncation towards zero.\<close>

definition ToIntegerOrInfinity :: "rat \<Rightarrow> int" where
  "ToIntegerOrInfinity q = (if 0 \<le> q then \<lfloor>q\<rfloor> else \<lceil>q\<rceil>)"

subsection \<open>Strings\<close>

text \<open>\<^verbatim>\<open>s.includes(pat)\<close>: \<open>pat\<close> occurs in \<open>s\<close> at some position.\<close>

fun str_includes :: "string \<Rightarrow> string \<Rightarrow> bool" where
  "str_includes [] pat = (pat = [])"
| "str_includes (c # cs) pat = (take (length pat) (c # cs) = pat \<or> str_includes cs pat)"

text \<open>\<^verbatim>\<open>s.replace(pat, rep)\<close> with a string pattern: only the first occurrence is replaced.\<close>

fun replace_first :: "string \<Rightarrow> string \<Rightarrow> string \<Rightarrow> string" where
  "replace_first pat rep [] = (if pat = [] then rep else [])"
| "replace_first pat rep (c # cs) =
     (if take (length pat) (c # cs) = pat then rep @ drop (length pat) (c # cs)
      else c # replace_first pat rep cs)"

text \<open>\<^verbatim>\<open>s.split('T')[0]\<close>: the part of \<open>s\<close> before the first \<^verbatim>\<open>T\<close> (all of \<open>s\<close> without one).\<close>

definition split_T_first :: "string \<Rightarrow> string" where
  "split_T_first s = takeWhile (\<lambda>c. c \<noteq> CHR ''T'') s"

text \<open>\<^verbatim>\<open>s.replace(/-/g, '')\<close>: every hyphen is removed.\<close>

definition remove_hyphens :: "string \<Rightarrow> string" where
  "remove_hyphens s = filter (\<lambda>c. c \<noteq> CHR ''-'') s"

subsection \<open>parseInt\<close>

text \<open>
  \<^verbatim>\<open>parseInt(string)\<close> with no radix (ECMA-262, 19.2.5): leading white space is skipped,
  one sign is read, a \<^verbatim>\<open>0x\<close>/\<^verbatim>\<open>0X\<close> prefix selects radix 16, and the longest run of
  digits of the radix is the value; with no digit the result is \<^verbatim>\<open>NaN\<close>. The result is
  a \<^verbatim>\<open>Number\<close>: exact up to \<open>2^53\<close> in magnitude, rounded beyond (past 20 decimal digits
  an implementation may round the digits as well). Negative zero is not told from zero:
  the routes subtract the result or print it, which gives the same for both.

  White space is the code points of \<^verbatim>\<open>WhiteSpace\<close> and \<^verbatim>\<open>LineTerminator\<close>: TAB, LF, VT,
  FF, CR and SP, each one byte; U+00A0 in two bytes; U+1680, U+2000 to U+200A, U+2028,
  U+2029, U+202F, U+205F, U+3000 and U+FEFF in three bytes each.
\<close>

definition white_1byte :: "char list" where
  "white_1byte = [CHR 0x09, CHR 0x0A, CHR 0x0B, CHR 0x0C, CHR 0x0D, CHR 0x20]"

definition white_3bytes :: "string list" where
  "white_3bytes =
     [[CHR 0xE1, CHR 0x9A, CHR 0x80],
      [CHR 0xE2, CHR 0x80, CHR 0x80], [CHR 0xE2, CHR 0x80, CHR 0x81], [CHR 0xE2, CHR 0x80, CHR 0x82],
      [CHR 0xE2, CHR 0x80, CHR 0x83], [CHR 0xE2, CHR 0x80, CHR 0x84], [CHR 0xE2, CHR 0x80, CHR 0x85],
      [CHR 0xE2, CHR 0x80, CHR 0x86], [CHR 0xE2, CHR 0x80, CHR 0x87], [CHR 0xE2, CHR 0x80, CHR 0x88],
      [CHR 0xE2, CHR 0x80, CHR 0x89], [CHR 0xE2, CHR 0x80, CHR 0x8A],
      [CHR 0xE2, CHR 0x80, CHR 0xA8], [CHR 0xE2, CHR 0x80, CHR 0xA9], [CHR 0xE2, CHR 0x80, CHR 0xAF],
      [CHR 0xE2, CHR 0x81, CHR 0x9F], [CHR 0xE3, CHR 0x80, CHR 0x80], [CHR 0xEF, CHR 0xBB, CHR 0xBF]]"

fun trimStart :: "string \<Rightarrow> string" where
  "trimStart [] = []"
| "trimStart (c # cs) =
     (if c \<in> set white_1byte then trimStart cs
      else if c # take 1 cs = [CHR 0xC2, CHR 0xA0] then trimStart (drop 1 cs)
      else if c # take 2 cs \<in> set white_3bytes then trimStart (drop 2 cs)
      else c # cs)"

definition digit_of :: "char \<Rightarrow> int option" where
  "digit_of = map_of
     [(CHR ''0'', 0), (CHR ''1'', 1), (CHR ''2'', 2), (CHR ''3'', 3), (CHR ''4'', 4),
      (CHR ''5'', 5), (CHR ''6'', 6), (CHR ''7'', 7), (CHR ''8'', 8), (CHR ''9'', 9),
      (CHR ''a'', 10), (CHR ''b'', 11), (CHR ''c'', 12), (CHR ''d'', 13), (CHR ''e'', 14),
      (CHR ''f'', 15), (CHR ''A'', 10), (CHR ''B'', 11), (CHR ''C'', 12), (CHR ''D'', 13),
      (CHR ''E'', 14), (CHR ''F'', 15)]"

definition radix_digit :: "int \<Rightarrow> char \<Rightarrow> bool" where
  "radix_digit R c = (case digit_of c of None \<Rightarrow> False | Some v \<Rightarrow> v < R)"

definition digit_val :: "char \<Rightarrow> int" where
  "digit_val c = (case digit_of c of None \<Rightarrow> 0 | Some v \<Rightarrow> v)"

definition digits_value :: "int \<Rightarrow> string \<Rightarrow> int" where
  "digits_value R Z = foldl (\<lambda>a c. a * R + digit_val c) 0 Z"

definition parseInt :: "string \<Rightarrow> number" where
  "parseInt inputString =
     (let S = trimStart inputString;
          sign = (if take 1 S = ''-'' then - 1 else 1);
          S1 = (if take 1 S = ''+'' \<or> take 1 S = ''-'' then drop 1 S else S);
          hex = (take 2 S1 = ''0x'' \<or> take 2 S1 = ''0X'');
          R = (if hex then 16 else 10);
          S2 = (if hex then drop 2 S1 else S1);
          Z = takeWhile (radix_digit R) S2;
          mathInt = sign * digits_value R Z
      in if Z = [] then NaN
         else if \<bar>mathInt\<bar> \<le> 9007199254740992 then Exact (of_int mathInt)
         else Rounded (of_int mathInt))"

subsection \<open>Decimal output\<close>

fun dec :: "nat \<Rightarrow> string" where
  "dec n = (if n < 10 then [''0123456789'' ! n] else dec (n div 10) @ [''0123456789'' ! (n mod 10)])"

definition pad :: "nat \<Rightarrow> nat \<Rightarrow> string" where
  "pad w n = replicate (w - length (dec n)) CHR ''0'' @ dec n"

subsection \<open>The Date object (ECMA-262, 21.4.1)\<close>

text \<open>
  A time value is a number of milliseconds since 1970-01-01T00:00Z, or \<^verbatim>\<open>NaN\<close>
  (an invalid date), so a \<^verbatim>\<open>Date\<close> is an \<open>int option\<close>. The host's time zone is a
  parameter: the offset of local time from UTC, given a UTC instant and given a local
  time value.
\<close>

definition msPerDay :: int where
  "msPerDay = 86400000"

definition Day :: "int \<Rightarrow> int" where
  "Day t = t div msPerDay"

definition TimeWithinDay :: "int \<Rightarrow> int" where
  "TimeWithinDay t = t mod msPerDay"

definition DaysInYear :: "int \<Rightarrow> int" where
  "DaysInYear y =
     (if y mod 4 \<noteq> 0 then 365 else if y mod 100 \<noteq> 0 then 366
      else if y mod 400 \<noteq> 0 then 365 else 366)"

definition DayFromYear :: "int \<Rightarrow> int" where
  "DayFromYear y =
     365 * (y - 1970) + (y - 1969) div 4 - (y - 1901) div 100 + (y - 1601) div 400"

text \<open>
  \<^verbatim>\<open>YearFromTime(t)\<close> is the largest \<open>y\<close> whose first day is not after \<open>t\<close>. It is
  computed from the estimate \<open>1970 + \<lfloor>Day t / 365.2425\<rfloor>\<close>, which is off by at most one
  (lemma \<open>YearFromTime_bounds\<close> below).
\<close>

definition YearFromTime :: "int \<Rightarrow> int" where
  "YearFromTime t =
     (let d = Day t; y = 1970 + (400 * d) div 146097
      in if DayFromYear (y + 1) \<le> d then y + 1
         else if DayFromYear y \<le> d then y else y - 1)"

definition leap_days :: "int \<Rightarrow> int" where
  "leap_days y = (if DaysInYear y = 366 then 1 else 0)"

definition InLeapYear :: "int \<Rightarrow> int" where
  "InLeapYear t = leap_days (YearFromTime t)"

definition DayWithinYear :: "int \<Rightarrow> int" where
  "DayWithinYear t = Day t - DayFromYear (YearFromTime t)"

text \<open>The number of days of a year before its month \<open>m\<close> (0 is January).\<close>

definition month_start :: "int \<Rightarrow> int \<Rightarrow> int" where
  "month_start m l =
     (if m = 0 then 0 else if m = 1 then 31 else if m = 2 then 59 + l
      else if m = 3 then 90 + l else if m = 4 then 120 + l else if m = 5 then 151 + l
      else if m = 6 then 181 + l else if m = 7 then 212 + l else if m = 8 then 243 + l
      else if m = 9 then 273 + l else if m = 10 then 304 + l else 334 + l)"

definition MonthFromTime :: "int \<Rightarrow> int" where
  "MonthFromTime t =
     (let d = DayWithinYear t; l = InLeapYear t
      in if d < 31 then 0 else if d < 59 + l then 1 else if d < 90 + l then 2
         else if d < 120 + l then 3 else if d < 151 + l then 4 else if d < 181 + l then 5
         else if d < 212 + l then 6 else if d < 243 + l then 7 else if d < 273 + l then 8
         else if d < 304 + l then 9 else if d < 334 + l then 10 else 11)"

definition DateFromTime :: "int \<Rightarrow> int" where
  "DateFromTime t = DayWithinYear t - month_start (MonthFromTime t) (InLeapYear t) + 1"

definition MakeDay :: "int \<Rightarrow> int \<Rightarrow> int \<Rightarrow> int" where
  "MakeDay year month date =
     (let ym = year + month div 12; mn = month mod 12
      in DayFromYear ym + month_start mn (leap_days ym) + date - 1)"

definition MakeDate :: "int \<Rightarrow> int \<Rightarrow> int" where
  "MakeDate day time = day * msPerDay + time"

definition TimeClip :: "int \<Rightarrow> int option" where
  "TimeClip time = (if \<bar>time\<bar> > 8640000000000000 then None else Some time)"

record time_zone =
  utc_offset :: "int \<Rightarrow> int"
  local_offset :: "int \<Rightarrow> int"

definition fixed_zone :: "int \<Rightarrow> time_zone" where
  "fixed_zone c = \<lparr>utc_offset = (\<lambda>t. c), local_offset = (\<lambda>t. c)\<rparr>"

definition LocalTime :: "time_zone \<Rightarrow> int \<Rightarrow> int" where
  "LocalTime z t = t + utc_offset z t"

definition UTC :: "time_zone \<Rightarrow> int \<Rightarrow> int" where
  "UTC z t = t - local_offset z t"

definition getDate :: "time_zone \<Rightarrow> int option \<Rightarrow> number" where
  "getDate z d = (case d of None \<Rightarrow> NaN | Some t \<Rightarrow> Exact (of_int (DateFromTime (LocalTime z t))))"

text \<open>
  \<^verbatim>\<open>d.setDate(date)\<close>. A rounded \<open>date\<close> occurs here only as \<^verbatim>\<open>getDate() - days\<close> for a
  day count of about \<open>2^53\<close> or more in magnitude (lemma \<open>days_Rounded\<close> below); the time
  value it gives is far beyond the range that \<^verbatim>\<open>TimeClip\<close> admits, whichever double the
  rounding chose, so the date becomes invalid.
\<close>

definition setDate :: "time_zone \<Rightarrow> int option \<Rightarrow> number \<Rightarrow> int option" where
  "setDate z d date =
     (case d of None \<Rightarrow> None
      | Some t0 \<Rightarrow>
          (case date of NaN \<Rightarrow> None
           | Rounded q \<Rightarrow> None
           | Exact q \<Rightarrow>
               (let t = LocalTime z t0;
                    dt = ToIntegerOrInfinity q;
                    newDate = MakeDate (MakeDay (YearFromTime t) (MonthFromTime t) dt) (TimeWithinDay t)
                in TimeClip (UTC z newDate))))"

definition year_str :: "int \<Rightarrow> string" where
  "year_str y =
     (if 0 \<le> y \<and> y \<le> 9999 then pad 4 (nat y)
      else (if y < 0 then ''-'' else ''+'') @ pad 6 (nat \<bar>y\<bar>))"

definition iso_date :: "int \<Rightarrow> string" where
  "iso_date t =
     year_str (YearFromTime t) @ ''-'' @ pad 2 (nat (MonthFromTime t + 1)) @ ''-''
       @ pad 2 (nat (DateFromTime t))"

definition iso_time :: "int \<Rightarrow> string" where
  "iso_time t =
     pad 2 (nat ((t div 3600000) mod 24)) @ '':'' @ pad 2 (nat ((t div 60000) mod 60)) @ '':''
       @ pad 2 (nat ((t div 1000) mod 60)) @ ''.'' @ pad 3 (nat (t mod 1000))"

definition toISOString :: "int option \<Rightarrow> js_error + string" where
  "toISOString d =
     (case d of None \<Rightarrow> Inl (JsError ''RangeError'' ''Invalid time value'')
      | Some t \<Rightarrow> Inr (iso_date t @ ''T'' @ iso_time t @ ''Z''))"

section \<open>The date-range normalizer\<close>

text \<open>
  \<^verbatim>\<open>formatDate\<close> of the Google Ads route and \<^verbatim>\<open>formatDateForMetricool\<close> of the
  Metricool route. \<^verbatim>\<open>new Date()\<close> reads the clock; the reading is the parameter \<open>now\<close>.
\<close>

definition formatDate :: "time_zone \<Rightarrow> int \<Rightarrow> string \<Rightarrow> js_error + string" where
  "formatDate z now dateStr =
     (if dateStr = ''today'' then map_sum id split_T_first (toISOString (Some now))
      else if dateStr = ''yesterday'' then
        (let yesterday = Some now;
             yesterday = setDate z yesterday (num_minus (getDate z yesterday) (Exact 1))
         in map_sum id split_T_first (toISOString yesterday))
      else if str_includes dateStr ''daysAgo'' then
        (let days = parseInt (replace_first ''daysAgo'' '''' dateStr);
             date = Some now;
             date = setDate z date (num_minus (getDate z date) days)
         in map_sum id split_T_first (toISOString date))
      else Inr dateStr)"

definition formatDateForMetricool :: "time_zone \<Rightarrow> int \<Rightarrow> string \<Rightarrow> js_error + string" where
  "formatDateForMetricool z now dateStr =
     (if dateStr = ''today'' then map_sum id split_T_first (toISOString (Some now))
      else if dateStr = ''yesterday'' then
        (let yesterday = Some now;
             yesterday = setDate z yesterday (num_minus (getDate z yesterday) (Exact 1))
         in map_sum id split_T_first (toISOString yesterday))
      else if str_includes dateStr ''daysAgo'' then
        (let days = parseInt (replace_first ''daysAgo'' '''' dateStr);
             date = Some now;
             date = setDate z date (num_minus (getDate z date) days)
         in map_sum id split_T_first (toISOString date))
      else Inr dateStr)"

section \<open>Documents, property lookup and the external world\<close>

text \<open>
  \<^verbatim>\<open>NextResponse.json(value, {status})\<close> serialises an object literal. Documents are
  JSON values; a property whose value is \<^verbatim>\<open>undefined\<close> is left out of the document, and a
  number that is \<^verbatim>\<open>NaN\<close> or an infinity is written as \<^verbatim>\<open>null\<close>. Rounding gives an
  infinity from \<open>2^1024 - 2^970\<close> on.
\<close>

datatype json =
  JNull | JBool bool | JNum number | JStr string | JArr "json list" | JObj "(string \<times> json) list"

datatype response = Response (status: nat) (body: json)

definition opt_field :: "string \<Rightarrow> json option \<Rightarrow> (string \<times> json) list" where
  "opt_field k v = (case v of None \<Rightarrow> [] | Some x \<Rightarrow> [(k, x)])"

definition num_json :: "number \<Rightarrow> json" where
  "num_json n =
     (case n of NaN \<Rightarrow> JNull
      | Exact q \<Rightarrow> JNum (Exact q)
      | Rounded q \<Rightarrow> if \<bar>q\<bar> \<ge> 2 ^ 1024 - 2 ^ 970 then JNull else JNum (Rounded q))"

text \<open>\<^verbatim>\<open>doc[k]\<close> on a document.\<close>

definition json_get :: "json \<Rightarrow> string \<Rightarrow> json option" where
  "json_get doc k = (case doc of JObj kvs \<Rightarrow> map_of kvs k | _ \<Rightarrow> None)"

text \<open>\<^verbatim>\<open>v || d\<close> on an optional string: \<^verbatim>\<open>null\<close>, \<^verbatim>\<open>undefined\<close> and \<^verbatim>\<open>''\<close> are falsy.\<close>

definition or_default :: "string option \<Rightarrow> string \<Rightarrow> string" where
  "or_default v d = (case v of None \<Rightarrow> d | Some s \<Rightarrow> if s = [] then d else s)"

definition falsy :: "string option \<Rightarrow> bool" where
  "falsy v = (case v of None \<Rightarrow> True | Some s \<Rightarrow> s = [])"

text \<open>A template literal prints \<^verbatim>\<open>undefined\<close> for a missing value.\<close>

definition template_str :: "string option \<Rightarrow> string" where
  "template_str v = (case v of None \<Rightarrow> ''undefined'' | Some s \<Rightarrow> s)"

subsection \<open>Property lookup on an object literal\<close>

text \<open>
  The mapping tables are object literals, so \<^verbatim>\<open>TABLE[key]\<close> finds the table's own
  property, or else a property inherited from \<^verbatim>\<open>Object.prototype\<close> (ECMA-262, 20.1.3 and
  B.2.2), or else \<^verbatim>\<open>undefined\<close>. Inherited values are functions (\<^verbatim>\<open>__proto__\<close> is the
  prototype object); all are truthy, as every own value of the tables is.
\<close>

definition Object_prototype_keys :: "string list" where
  "Object_prototype_keys =
     [''constructor'', ''hasOwnProperty'', ''isPrototypeOf'', ''propertyIsEnumerable'',
      ''toLocaleString'', ''toString'', ''valueOf'', ''__proto__'', ''__defineGetter__'',
      ''__defineSetter__'', ''__lookupGetter__'', ''__lookupSetter__'']"

datatype 'c property = Undefined | Own 'c | Inherited string

definition get_property :: "(string \<times> 'c) list \<Rightarrow> string \<Rightarrow> 'c property" where
  "get_property obj k =
     (case map_of obj k of Some c \<Rightarrow> Own c
      | None \<Rightarrow> if k \<in> set Object_prototype_keys then Inherited k else Undefined)"

text \<open>\<^verbatim>\<open>a || b\<close> on looked-up values.\<close>

definition or_else :: "'c property \<Rightarrow> 'c property \<Rightarrow> 'c property" where
  "or_else a b = (case a of Undefined \<Rightarrow> b | _ \<Rightarrow> a)"

text \<open>\<^verbatim>\<open>TABLE[companyId] || TABLE['default']\<close>, as each handler looks its account up.\<close>

definition lookup_config :: "(string \<times> 'c) list \<Rightarrow> string \<Rightarrow> 'c property" where
  "lookup_config table companyId = or_else (get_property table companyId) (get_property table ''default'')"

text \<open>
  \<^verbatim>\<open>config.field\<close>: reading a property of \<^verbatim>\<open>undefined\<close> throws a \<^verbatim>\<open>TypeError\<close>; a function
  has no such field but has a \<^verbatim>\<open>name\<close> (that of \<^verbatim>\<open>Object.prototype.constructor\<close> is
  \<^verbatim>\<open>Object\<close>).
\<close>

definition require_object :: "'c property \<Rightarrow> js_error + unit" where
  "require_object cfg =
     (case cfg of Undefined \<Rightarrow> Inl (JsError ''TypeError'' ''Cannot read properties of undefined'')
      | _ \<Rightarrow> Inr ())"

definition field :: "('c \<Rightarrow> string) \<Rightarrow> 'c property \<Rightarrow> string option" where
  "field f cfg = (case cfg of Own c \<Rightarrow> Some (f c) | _ \<Rightarrow> None)"

definition name_field :: "('c \<Rightarrow> string) \<Rightarrow> 'c property \<Rightarrow> string option" where
  "name_field f cfg =
     (case cfg of Own c \<Rightarrow> Some (f c)
      | Inherited k \<Rightarrow>
          (if k = ''__proto__'' then None else if k = ''constructor'' then Some ''Object''
           else Some k)
      | Undefined \<Rightarrow> None)"

subsection \<open>External calls\<close>

text \<open>
  What a handler does to the outside is recorded as a list of events, in the order the
  calls are issued. What the outside answers is a parameter: each call either throws
  (rejects) or returns a value.
\<close>

datatype report = MainMetrics | TimeSeries | TopPages | TrafficSources | Devices | Countries

datatype event =
  GetTokenPayload string
  | RunReport report string string string
  | CampaignQuery string string string
  | MetricsQuery string string string
  | MetricoolCall string "(string \<times> string) list"

definition is_identity_lookup :: "event \<Rightarrow> bool" where
  "is_identity_lookup ev = (case ev of GetTokenPayload _ \<Rightarrow> True | _ \<Rightarrow> False)"

definition is_provider_query :: "event \<Rightarrow> bool" where
  "is_provider_query ev = (case ev of GetTokenPayload _ \<Rightarrow> False | _ \<Rightarrow> True)"

text \<open>
  The query parameters of a request, and what every handler reads from its host:
  \<^verbatim>\<open>process.env\<close>, the outcome of \<^verbatim>\<open>copilotApi({...})\<close> (\<open>Some e\<close>: it throws \<open>e\<close>), the
  outcome of \<^verbatim>\<open>copilot.getTokenPayload?.()\<close> (it throws, or gives the session's
  \<^verbatim>\<open>companyId\<close> if the session has one), the time zone, and the clock as read while the
  start date (\<open>clock 0\<close>) and the end date (\<open>clock 1\<close>) are normalised.
\<close>

record request =
  q_token :: "string option"
  q_startDate :: "string option"
  q_endDate :: "string option"

record host =
  env :: "string \<Rightarrow> string option"
  copilotApi :: "js_error option"
  getTokenPayload :: "js_error + string option"
  zone :: time_zone
  clock :: "nat \<Rightarrow> int"

text \<open>
  Sequencing inside a \<^verbatim>\<open>try\<close> block: \<open>step evs r k\<close> issues the calls \<open>evs\<close> with outcome
  \<open>r\<close>; a throw ends the block there, a value is passed on to the rest \<open>k\<close>.
\<close>

definition step ::
  "event list \<Rightarrow> js_error + 'a \<Rightarrow> ('a \<Rightarrow> (js_error + 'b) \<times> event list) \<Rightarrow> (js_error + 'b) \<times> event list" where
  "step evs r k =
     (case r of Inl e \<Rightarrow> (Inl e, evs)
      | Inr a \<Rightarrow> (case k a of (res, t) \<Rightarrow> (res, evs @ t)))"

definition finish :: "'b \<Rightarrow> (js_error + 'b) \<times> event list" where
  "finish x = (Inr x, [])"

definition thrown :: "js_error option \<Rightarrow> js_error + unit" where
  "thrown e = (case e of None \<Rightarrow> Inr () | Some err \<Rightarrow> Inl err)"

text \<open>
  \<^verbatim>\<open>try { session = await copilot.getTokenPayload?.(); companyId = session?.companyId || 'default' }
  catch { }\<close> of the Google Ads and Metricool routes: a throw leaves \<^verbatim>\<open>'default'\<close>.
\<close>

definition companyId_or_default :: "js_error + string option \<Rightarrow> string" where
  "companyId_or_default r = (case r of Inl e \<Rightarrow> ''default'' | Inr session \<Rightarrow> or_default session ''default'')"

text \<open>
  \<^verbatim>\<open>Object.entries(requiredEnvVars).filter(([_, value]) => !value).map(([key]) => key)\<close>
\<close>

definition missingVars :: "(string \<Rightarrow> string option) \<Rightarrow> (string \<times> string) list \<Rightarrow> string list" where
  "missingVars e requiredEnvVars = map fst (filter (\<lambda>(key, var). falsy (e var)) requiredEnvVars)"

section \<open>The web-analytics route (\<^verbatim>\<open>api/ga4/metrics/route.ts\<close>)\<close>

record property_config =
  propertyId :: string
  p_name :: string
  adsCustomerId :: string

definition PROPERTY_MAPPING :: "(string \<times> property_config) list" where
  "PROPERTY_MAPPING =
     [(''default'',
         \<lparr>propertyId = ''270323387'', p_name = ''Art Unlimited'', adsCustomerId = ''1196391424''\<rparr>),
      (''7d52dc8e-c603-4c7e-ad27-60c15a86c12f'',
         \<lparr>propertyId = ''270323387'', p_name = ''Art Unlimited'', adsCustomerId = ''1196391424''\<rparr>),
      (''fdb96a2c-a6ad-4238-9747-06b3ce7e8840'',
         \<lparr>propertyId = ''266834246'', p_name = ''Alans Roofing'', adsCustomerId = ''9499823115''\<rparr>),
      (''61e7c938-fd52-4693-b79b-c2fb2349b61d'',
         \<lparr>propertyId = ''260457321'', p_name = ''Straight Line'', adsCustomerId = ''7116961973''\<rparr>)]"

text \<open>
  A report row as the provider returns it: \<^verbatim>\<open>row.dimensionValues?.[i]?.value\<close> is
  \<open>value_at (dimensionValues row) i\<close>, \<open>None\<close> when any link of the chain is missing.
  A report's \<^verbatim>\<open>rows\<close> may be missing as well.
\<close>

record ga_row =
  dimensionValues :: "string option list"
  metricValues :: "string option list"

definition value_at :: "string option list \<Rightarrow> nat \<Rightarrow> string option" where
  "value_at vs i = (if i < length vs then vs ! i else None)"

text \<open>
  \<open>analyticsDataClient\<close> is the outcome of parsing the service-account credentials and
  constructing the client; \<open>runReport\<close> is the provider's answer to each of the six reports.
\<close>

record ga4_world =
  analyticsDataClient :: "js_error option"
  runReport :: "report \<Rightarrow> js_error + ga_row list option"

text \<open>
  The decimal conversions of \<^verbatim>\<open>parseFloat\<close> and \<^verbatim>\<open>toFixed\<close> are not computed: the
  document value of \<^verbatim>\<open>parseFloat(s)\<close> is the parameter \<open>pf\<close>, the string
  \<^verbatim>\<open>(parseFloat(s) * 100).toFixed(2)\<close> is the parameter \<open>pct\<close>.
\<close>

definition metric_int :: "ga_row \<Rightarrow> nat \<Rightarrow> json" where
  "metric_int row i = num_json (parseInt (or_default (value_at (metricValues row) i) ''0''))"

definition mainMetrics :: "(string \<Rightarrow> json) \<Rightarrow> (string \<Rightarrow> string) \<Rightarrow> ga_row list option \<Rightarrow> json" where
  "mainMetrics pf pct metricsResponse =
     (case metricsResponse of None \<Rightarrow> JNull | Some [] \<Rightarrow> JNull
      | Some (mainRow # _) \<Rightarrow>
          JObj [(''activeUsers'', metric_int mainRow 0),
                (''sessions'', metric_int mainRow 1),
                (''pageViews'', metric_int mainRow 2),
                (''avgSessionDuration'', pf (or_default (value_at (metricValues mainRow) 3) ''0'')),
                (''bounceRate'', JStr (pct (or_default (value_at (metricValues mainRow) 4) ''0''))),
                (''newUsers'', metric_int mainRow 5),
                (''engagementRate'', JStr (pct (or_default (value_at (metricValues mainRow) 6) ''0'')))])"

text \<open>\<^verbatim>\<open>response.rows?.map(f) || []\<close>\<close>

definition rows_map :: "(ga_row \<Rightarrow> json) \<Rightarrow> ga_row list option \<Rightarrow> json" where
  "rows_map f resp = (case resp of None \<Rightarrow> JArr [] | Some rows \<Rightarrow> JArr (map f rows))"

definition timeSeries :: "ga_row list option \<Rightarrow> json" where
  "timeSeries timeSeriesResponse =
     rows_map (\<lambda>row. JObj [(''date'', JStr (or_default (value_at (dimensionValues row) 0) [])),
                            (''activeUsers'', metric_int row 0),
                            (''sessions'', metric_int row 1),
                            (''pageViews'', metric_int row 2)]) timeSeriesResponse"

definition topPages :: "ga_row list option \<Rightarrow> json" where
  "topPages pagesResponse =
     rows_map (\<lambda>row. JObj [(''title'', JStr (or_default (value_at (dimensionValues row) 0) ''Unknown'')),
                            (''path'', JStr (or_default (value_at (dimensionValues row) 1) ''/'')),
                            (''views'', metric_int row 0)]) pagesResponse"

definition trafficSources :: "ga_row list option \<Rightarrow> json" where
  "trafficSources sourcesResponse =
     rows_map (\<lambda>row. JObj [(''source'', JStr (or_default (value_at (dimensionValues row) 0) ''Unknown'')),
                            (''sessions'', metric_int row 0)]) sourcesResponse"

definition devices :: "ga_row list option \<Rightarrow> json" where
  "devices devicesResponse =
     rows_map (\<lambda>row. JObj [(''device'', JStr (or_default (value_at (dimensionValues row) 0) ''Unknown'')),
                            (''users'', metric_int row 0)]) devicesResponse"

definition countries :: "ga_row list option \<Rightarrow> json" where
  "countries countriesResponse =
     rows_map (\<lambda>row. JObj [(''country'', JStr (or_default (value_at (dimensionValues row) 0) ''Unknown'')),
                            (''users'', metric_int row 0)]) countriesResponse"

definition dateRange_doc :: "string \<Rightarrow> string \<Rightarrow> json" where
  "dateRange_doc startDate endDate = JObj [(''startDate'', JStr startDate), (''endDate'', JStr endDate)]"

text \<open>
  The body of the handler's \<^verbatim>\<open>try\<close> block, after the token check. The six reports are
  awaited one after the other, so a report that fails ends the block before the next
  one is issued.
\<close>

definition ga4_try ::
  "(string \<Rightarrow> json) \<Rightarrow> (string \<Rightarrow> string) \<Rightarrow> host \<Rightarrow> ga4_world \<Rightarrow> string \<Rightarrow> string \<Rightarrow> string
     \<Rightarrow> (js_error + response) \<times> event list" where
  "ga4_try pf pct h w token startDate endDate =
     step [] (thrown (copilotApi h)) (\<lambda>_.
     step [GetTokenPayload token] (getTokenPayload h) (\<lambda>session.
       let companyId = or_default session ''default'';
           companyConfig = lookup_config PROPERTY_MAPPING companyId
       in
     step [] (thrown (analyticsDataClient w)) (\<lambda>_.
     step [] (require_object companyConfig) (\<lambda>_.
       let property = ''properties/'' @ template_str (field propertyId companyConfig) in
     step [RunReport MainMetrics property startDate endDate] (runReport w MainMetrics) (\<lambda>metricsResponse.
     step [RunReport TimeSeries property startDate endDate] (runReport w TimeSeries) (\<lambda>timeSeriesResponse.
     step [RunReport TopPages property startDate endDate] (runReport w TopPages) (\<lambda>pagesResponse.
     step [RunReport TrafficSources property startDate endDate] (runReport w TrafficSources) (\<lambda>sourcesResponse.
     step [RunReport Devices property startDate endDate] (runReport w Devices) (\<lambda>devicesResponse.
     step [RunReport Countries property startDate endDate] (runReport w Countries) (\<lambda>countriesResponse.
       finish (Response 200 (JObj
         ([(''companyId'', JStr companyId)]
          @ opt_field ''companyName'' (map_option JStr (name_field p_name companyConfig))
          @ [(''dateRange'', dateRange_doc startDate endDate),
             (''metrics'', mainMetrics pf pct metricsResponse),
             (''timeSeries'', timeSeries timeSeriesResponse),
             (''topPages'', topPages pagesResponse),
             (''trafficSources'', trafficSources sourcesResponse),
             (''devices'', devices devicesResponse),
             (''countries'', countries countriesResponse)])))))))))))))"

definition ga4_GET ::
  "(string \<Rightarrow> json) \<Rightarrow> (string \<Rightarrow> string) \<Rightarrow> host \<Rightarrow> ga4_world \<Rightarrow> request \<Rightarrow> response \<times> event list" where
  "ga4_GET pf pct h w req =
     (let token = q_token req;
          startDate = or_default (q_startDate req) ''30daysAgo'';
          endDate = or_default (q_endDate req) ''today''
      in if falsy token then (Response 401 (JObj [(''error'', JStr ''No token provided'')]), [])
         else (case ga4_try pf pct h w (or_default token []) startDate endDate of
                 (Inr r, evs) \<Rightarrow> (r, evs)
               | (Inl error, evs) \<Rightarrow>
                   (Response 500 (JObj [(''error'', JStr ''Failed to fetch analytics data''),
                                        (''details'', JStr (err_message error))]), evs)))"

section \<open>The advertising route (\<^verbatim>\<open>api/google-ads/metrics/route.ts\<close>)\<close>

record customer_config =
  customerId :: string
  c_name :: string
  hasGoogleAds :: bool

definition CUSTOMER_MAPPING :: "(string \<times> customer_config) list" where
  "CUSTOMER_MAPPING =
     [(''default'',
         \<lparr>customerId = ''7116961973'', c_name = ''Art Unlimited'', hasGoogleAds = False\<rparr>),
      (''7d52dc8e-c603-4c7e-ad27-60c15a86c12f'',
         \<lparr>customerId = ''1196391424'', c_name = ''Art Unlimited'', hasGoogleAds = False\<rparr>),
      (''fdb96a2c-a6ad-4238-9747-06b3ce7e8840'',
         \<lparr>customerId = ''9499823115'', c_name = ''Alans Roofing'', hasGoogleAds = True\<rparr>),
      (''61e7c938-fd52-4693-b79b-c2fb2349b61d'',
         \<lparr>customerId = ''7116961973'', c_name = ''Straight Line'', hasGoogleAds = True\<rparr>)]"

text \<open>
  A row of a query result: \<^verbatim>\<open>row.metrics?.cost_micros\<close> is \<open>metric cost_micros row\<close>,
  \<open>None\<close> when the row has no \<^verbatim>\<open>metrics\<close> or the metric is missing.
\<close>

record raw_metrics =
  impressions :: "rat option"
  clicks :: "rat option"
  ctr :: "rat option"
  cost_micros :: "rat option"
  conversions :: "rat option"
  conversions_value :: "rat option"
  average_cpc :: "rat option"

record raw_campaign =
  campaign_id :: "string option"
  campaign_name :: "string option"
  campaign_status :: "string option"

record ads_row =
  campaign :: "raw_campaign option"
  metrics :: "raw_metrics option"

definition metric :: "(raw_metrics \<Rightarrow> rat option) \<Rightarrow> ads_row \<Rightarrow> rat option" where
  "metric f row = (case metrics row of None \<Rightarrow> None | Some m \<Rightarrow> f m)"

definition campaign_field :: "(raw_campaign \<Rightarrow> string option) \<Rightarrow> ads_row \<Rightarrow> string option" where
  "campaign_field f row = (case campaign row of None \<Rightarrow> None | Some c \<Rightarrow> f c)"

text \<open>
  \<^verbatim>\<open>Number(x || 0)\<close>, for a metric \<open>x\<close> that the provider gives as a double (its value) or
  not at all.
\<close>

definition Number_or_0 :: "rat option \<Rightarrow> rat" where
  "Number_or_0 x = (case x of None \<Rightarrow> 0 | Some v \<Rightarrow> v)"

text \<open>\<^verbatim>\<open>overallMetrics[0] ? {...} : null\<close>\<close>

definition overall_metrics :: "ads_row list \<Rightarrow> json" where
  "overall_metrics overallMetrics =
     (case overallMetrics of [] \<Rightarrow> JNull
      | row # _ \<Rightarrow>
          JObj [(''impressions'', JNum (Exact (Number_or_0 (metric impressions row)))),
                (''clicks'', JNum (Exact (Number_or_0 (metric clicks row)))),
                (''ctr'', num_json (double_times (Number_or_0 (metric ctr row)) 100)),
                (''cost'', num_json (double_over (Number_or_0 (metric cost_micros row)) 1000000)),
                (''conversions'', JNum (Exact (Number_or_0 (metric conversions row)))),
                (''conversionsValue'', JNum (Exact (Number_or_0 (metric conversions_value row)))),
                (''averageCpc'', num_json (double_over (Number_or_0 (metric average_cpc row)) 1000000))])"

text \<open>The function mapped over \<^verbatim>\<open>campaigns\<close>.\<close>

definition campaign_doc :: "ads_row \<Rightarrow> json" where
  "campaign_doc row =
     JObj (opt_field ''id'' (map_option JStr (campaign_field campaign_id row))
           @ [(''name'', JStr (or_default (campaign_field campaign_name row) ''Unknown Campaign''))]
           @ opt_field ''status'' (map_option JStr (campaign_field campaign_status row))
           @ [(''impressions'', JNum (Exact (Number_or_0 (metric impressions row)))),
              (''clicks'', JNum (Exact (Number_or_0 (metric clicks row)))),
              (''ctr'', num_json (double_times (Number_or_0 (metric ctr row)) 100)),
              (''cost'', num_json (double_over (Number_or_0 (metric cost_micros row)) 1000000)),
              (''conversions'', JNum (Exact (Number_or_0 (metric conversions row)))),
              (''conversionsValue'', JNum (Exact (Number_or_0 (metric conversions_value row))))])"

text \<open>
  \<open>GoogleAdsApi\<close> and \<open>Customer\<close> are the outcomes of the two constructors (\<open>Some e\<close>: it
  throws \<open>e\<close>); the two queries are the provider's answers. Both queries are issued
  before either is awaited (\<^verbatim>\<open>Promise.all\<close>); when both reject, the error reported is
  taken to be the campaign query's.
\<close>

record ads_world =
  GoogleAdsApi :: "js_error option"
  Customer :: "js_error option"
  campaignQuery :: "js_error + ads_row list"
  metricsQuery :: "js_error + ads_row list"

definition promise_all2 :: "js_error + 'a \<Rightarrow> js_error + 'b \<Rightarrow> js_error + 'a \<times> 'b" where
  "promise_all2 a b =
     (case a of Inl e \<Rightarrow> Inl e
      | Inr x \<Rightarrow> (case b of Inl e \<Rightarrow> Inl e | Inr y \<Rightarrow> Inr (x, y)))"

definition ads_requiredEnvVars :: "(string \<times> string) list" where
  "ads_requiredEnvVars =
     [(''clientId'', ''GOOGLE_ADS_CLIENT_ID''),
      (''clientSecret'', ''GOOGLE_ADS_CLIENT_SECRET''),
      (''developerToken'', ''GOOGLE_ADS_DEVELOPER_TOKEN''),
      (''refreshToken'', ''GOOGLE_ADS_REFRESH_TOKEN''),
      (''copilotApiKey'', ''COPILOT_API_KEY'')]"

definition config_error :: "string list \<Rightarrow> response" where
  "config_error missing =
     Response 500 (JObj [(''error'', JStr ''Server configuration error''),
                         (''missing'', JArr (map JStr missing))])"

text \<open>
  The body of the handler's outer \<^verbatim>\<open>try\<close> block, after the token check: \<open>Inr\<close> is a
  response returned from inside the block, \<open>Inl\<close> an exception that reaches the outer
  \<^verbatim>\<open>catch\<close>.
\<close>

definition ads_try ::
  "host \<Rightarrow> ads_world \<Rightarrow> string \<Rightarrow> string \<Rightarrow> string \<Rightarrow> (js_error + response) \<times> event list" where
  "ads_try h w token startDate endDate =
     (let missing = missingVars (env h) ads_requiredEnvVars in
      if missing \<noteq> [] then finish (config_error missing)
      else
        step [] (thrown (copilotApi h)) (\<lambda>_.
        step [GetTokenPayload token] (Inr (companyId_or_default (getTokenPayload h))) (\<lambda>companyId.
          let customerConfig = lookup_config CUSTOMER_MAPPING companyId
          in
          case GoogleAdsApi w of
            Some clientError \<Rightarrow>
              finish (Response 500 (JObj [(''error'', JStr ''Failed to initialize Google Ads client''),
                                          (''details'', JStr (err_message clientError))]))
          | None \<Rightarrow>
          (case (case require_object customerConfig of Inl e \<Rightarrow> Some e | Inr _ \<Rightarrow> Customer w) of
            Some customerError \<Rightarrow>
              finish (Response 500 (JObj [(''error'', JStr ''Failed to create customer instance''),
                                          (''details'', JStr (err_message customerError))]))
          | None \<Rightarrow>
          step [] (formatDate (zone h) (clock h 0) startDate) (\<lambda>startStr.
          step [] (formatDate (zone h) (clock h 1) endDate) (\<lambda>endStr.
            let formattedStartDate = remove_hyphens startStr;
                formattedEndDate = remove_hyphens endStr;
                customer_id = template_str (field customerId customerConfig);
                issued = [CampaignQuery customer_id formattedStartDate formattedEndDate,
                          MetricsQuery customer_id formattedStartDate formattedEndDate]
            in
            case promise_all2 (campaignQuery w) (metricsQuery w) of
              Inl queryError \<Rightarrow>
                step issued (Inr ()) (\<lambda>_.
                finish (Response 500 (JObj
                  ([(''error'', JStr ''Failed to query Google Ads data''),
                    (''details'', JStr (err_message queryError)),
                    (''errorType'', JStr (err_name queryError))]
                   @ opt_field ''customerId'' (map_option JStr (field customerId customerConfig))
                   @ [(''dateRange'', JObj [(''formattedStartDate'', JStr formattedStartDate),
                                            (''formattedEndDate'', JStr formattedEndDate)])]))))
            | Inr (campaigns, overallMetrics) \<Rightarrow>
                step issued (Inr ()) (\<lambda>_.
                finish (Response 200 (JObj
                  ([(''companyId'', JStr companyId)]
                   @ opt_field ''companyName'' (map_option JStr (name_field c_name customerConfig))
                   @ opt_field ''customerId'' (map_option JStr (field customerId customerConfig))
                   @ [(''dateRange'', dateRange_doc startDate endDate),
                      (''metrics'', overall_metrics overallMetrics),
                      (''campaigns'', JArr (map campaign_doc campaigns))]))))))))))"

definition ads_GET :: "host \<Rightarrow> ads_world \<Rightarrow> request \<Rightarrow> response \<times> event list" where
  "ads_GET h w req =
     (let token = q_token req;
          startDate = or_default (q_startDate req) ''30daysAgo'';
          endDate = or_default (q_endDate req) ''today''
      in if falsy token then (Response 401 (JObj [(''error'', JStr ''No token provided'')]), [])
         else (case ads_try h w (or_default token []) startDate endDate of
                 (Inr r, evs) \<Rightarrow> (r, evs)
               | (Inl error, evs) \<Rightarrow>
                   (Response 500 (JObj [(''error'', JStr ''Failed to fetch Google Ads data''),
                                        (''details'', JStr (err_message error)),
                                        (''errorType'', JStr (or_default (Some (err_name error)) ''Unknown''))]),
                    evs)))"

section \<open>The social-media route (Metricool)\<close>

record blog_config =
  blogId :: string
  b_name :: string

definition BLOG_MAPPING :: "(string \<times> blog_config) list" where
  "BLOG_MAPPING =
     [(''default'', \<lparr>blogId = ''1920806'', b_name = ''Straightline Roofing''\<rparr>),
      (''fdb96a2c-a6ad-4238-9747-06b3ce7e8840'', \<lparr>blogId = ''1920864'', b_name = ''Alans Roofing''\<rparr>),
      (''7d52dc8e-c603-4c7e-ad27-60c15a86c12f'', \<lparr>blogId = ''1914400'', b_name = ''Art Unlimited''\<rparr>),
      (''CRANDALL_COMPANY_ID'', \<lparr>blogId = ''4374791'', b_name = ''Crandall Roofing''\<rparr>),
      (''MIDDLE_CREEK_COMPANY_ID'', \<lparr>blogId = ''1929926'', b_name = ''Middle Creek''\<rparr>),
      (''NEPA_COMPANY_ID'', \<lparr>blogId = ''1920835'', b_name = ''NEPA Builders''\<rparr>),
      (''QUANTUM_COMPANY_ID'', \<lparr>blogId = ''1920899'', b_name = ''Quantum Roofing''\<rparr>),
      (''SRW_COMPANY_ID'', \<lparr>blogId = ''4069038'', b_name = ''SRW Products''\<rparr>),
      (''STEVENS_COMPANY_ID'', \<lparr>blogId = ''1920881'', b_name = ''Stevens Roofing''\<rparr>),
      (''STRAIGHTLINE_COMPANY_ID'', \<lparr>blogId = ''1920806'', b_name = ''Straightline Roofing''\<rparr>),
      (''TITTLE_COMPANY_ID'', \<lparr>blogId = ''3797430'', b_name = ''Tittle Brothers''\<rparr>),
      (''TRENT_COMPANY_ID'', \<lparr>blogId = ''4947746'', b_name = ''Trent Cotney''\<rparr>),
      (''VANWEELDEN_COMPANY_ID'', \<lparr>blogId = ''1920820'', b_name = ''VanWeelden''\<rparr>)]"

text \<open>
  \<open>callMetricoolApi w endpoint\<close> is the outcome of the helper \<^verbatim>\<open>callMetricoolApi\<close> for an
  endpoint: it rejects (the fetch fails, the status is not ok, the body is not JSON)
  or gives the parsed body. \<open>caught\<close> is the \<^verbatim>\<open>.catch(e => null)\<close> put on each call.
\<close>

record metricool_world =
  callMetricoolApi :: "string \<Rightarrow> js_error + json"

definition caught :: "js_error + json \<Rightarrow> json" where
  "caught r = (case r of Inl e \<Rightarrow> JNull | Inr v \<Rightarrow> v)"

definition metricool_requiredEnvVars :: "(string \<times> string) list" where
  "metricool_requiredEnvVars =
     [(''metricoolToken'', ''METRICOOL_API_TOKEN''),
      (''metricoolUserId'', ''METRICOOL_USER_ID''),
      (''copilotApiKey'', ''COPILOT_API_KEY'')]"

text \<open>
  The elements of the array given to \<^verbatim>\<open>Promise.all\<close> are evaluated in order: the profile
  call is issued, then both dates are normalised (either may throw, to the outer
  \<^verbatim>\<open>catch\<close>), then the statistics call and the posts call are issued.
\<close>

definition metricool_try ::
  "host \<Rightarrow> metricool_world \<Rightarrow> string \<Rightarrow> string \<Rightarrow> string \<Rightarrow> (js_error + response) \<times> event list" where
  "metricool_try h w token startDate endDate =
     (let missing = missingVars (env h) metricool_requiredEnvVars in
      if missing \<noteq> [] then finish (config_error missing)
      else
        step [] (thrown (copilotApi h)) (\<lambda>_.
        step [GetTokenPayload token] (Inr (companyId_or_default (getTokenPayload h))) (\<lambda>companyId.
          let blogConfig = lookup_config BLOG_MAPPING companyId
          in
        step [] (require_object blogConfig) (\<lambda>_.
          let params = [(''userId'', template_str (env h ''METRICOOL_USER_ID'')),
                        (''blogId'', template_str (field blogId blogConfig))]
          in
        step [MetricoolCall ''/admin/simpleProfiles'' params]
             (Inr (caught (callMetricoolApi w ''/admin/simpleProfiles''))) (\<lambda>profileData.
        step [] (formatDateForMetricool (zone h) (clock h 0) startDate) (\<lambda>fromDate.
        step [] (formatDateForMetricool (zone h) (clock h 1) endDate) (\<lambda>toDate.
        step [MetricoolCall ''/statistics/summary'' (params @ [(''from'', fromDate), (''to'', toDate)])]
             (Inr (caught (callMetricoolApi w ''/statistics/summary''))) (\<lambda>statsData.
        step [MetricoolCall ''/posts/list'' (params @ [(''limit'', ''10'')])]
             (Inr (caught (callMetricoolApi w ''/posts/list''))) (\<lambda>postsData.
          finish (Response 200 (JObj
            ([(''companyId'', JStr companyId)]
             @ opt_field ''companyName'' (map_option JStr (name_field b_name blogConfig))
             @ opt_field ''blogId'' (map_option JStr (field blogId blogConfig))
             @ [(''dateRange'', dateRange_doc startDate endDate),
                (''profile'', profileData),
                (''stats'', statsData),
                (''posts'', postsData)]))))))))))))"

definition metricool_GET :: "host \<Rightarrow> metricool_world \<Rightarrow> request \<Rightarrow> response \<times> event list" where
  "metricool_GET h w req =
     (let token = q_token req;
          startDate = or_default (q_startDate req) ''30daysAgo'';
          endDate = or_default (q_endDate req) ''today''
      in if falsy token then (Response 401 (JObj [(''error'', JStr ''No token provided'')]), [])
         else (case metricool_try h w (or_default token []) startDate endDate of
                 (Inr r, evs) \<Rightarrow> (r, evs)
               | (Inl error, evs) \<Rightarrow>
                   (Response 500 (JObj [(''error'', JStr ''Failed to fetch Metricool data''),
                                        (''details'', JStr (err_message error)),
                                        (''errorType'', JStr (or_default (Some (err_name error)) ''Unknown''))]),
                    evs)))"

section \<open>Sample inputs\<close>

text \<open>
  A host on which everything is configured, whose session belongs to the company
  \<^verbatim>\<open>7d52dc8e-...\<close> and whose clock reads 2024-03-15T12:00Z, with the answers of the
  three providers. They are used where a property is shown on a concrete request. The
  click-through rate of the sample row is the double nearest to 0.0342, which is
  \<open>4928739432194271 / 2^57\<close>.
\<close>

definition sample_host :: host where
  "sample_host = \<lparr>env = (\<lambda>var. Some ''set''), copilotApi = None,
     getTokenPayload = Inr (Some ''7d52dc8e-c603-4c7e-ad27-60c15a86c12f''),
     zone = fixed_zone 0, clock = (\<lambda>i. 1710504000000)\<rparr>"

definition sample_request :: request where
  "sample_request = \<lparr>q_token = Some ''t'', q_startDate = Some ''7daysAgo'', q_endDate = Some ''today''\<rparr>"

definition sample_ads_row :: ads_row where
  "sample_ads_row =
     \<lparr>campaign = Some \<lparr>campaign_id = Some ''1'', campaign_name = Some ''Spring'', campaign_status = Some ''ENABLED''\<rparr>,
      metrics = Some \<lparr>impressions = Some 1000, clicks = Some 34, ctr = Some (4928739432194271 / 144115188075855872),
                      cost_micros = Some 1500000, conversions = Some 2, conversions_value = Some 80,
                      average_cpc = Some 44117\<rparr>\<rparr>"

definition sample_ads_world :: ads_world where
  "sample_ads_world = \<lparr>GoogleAdsApi = None, Customer = None,
     campaignQuery = Inr [sample_ads_row], metricsQuery = Inr [sample_ads_row]\<rparr>"

definition sample_ga_row :: ga_row where
  "sample_ga_row = \<lparr>dimensionValues = [Some ''Home'', Some ''/home''],
     metricValues = [Some ''120'', Some ''150'', Some ''300'', Some ''61.5'', Some ''0.42'', Some ''80'', Some ''0.58'']\<rparr>"

text \<open>Every report answers with one row; the top-pages report answers with no rows.\<close>

definition sample_ga4_world :: ga4_world where
  "sample_ga4_world = \<lparr>analyticsDataClient = None,
     runReport = (\<lambda>r. if r = TopPages then Inr None else Inr (Some [sample_ga_row]))\<rparr>"


text \<open>
  US Eastern time around 10 March 2024, 07:00Z, when daylight saving time began: local
  time is five hours behind UTC before that instant and four hours behind after it.
\<close>

definition new_york_zone :: time_zone where
  "new_york_zone =
     \<lparr>utc_offset = (\<lambda>t. if t < 1710054000000 then - 18000000 else - 14400000),
      local_offset = (\<lambda>t. if t < 1710036000000 then - 18000000 else - 14400000)\<rparr>"

text \<open>The profile and statistics calls succeed, the posts call fails.\<close>

definition sample_metricool_world :: metricool_world where
  "sample_metricool_world = \<lparr>callMetricoolApi =
     (\<lambda>endpoint. if endpoint = ''/posts/list'' then Inl (JsError ''Error'' ''Metricool API error: 500'')
                  else Inr (JObj [(''endpoint'', JStr endpoint)]))\<rparr>"

section \<open>Properties\<close>

subsection \<open>Calendar arithmetic\<close>

declare dec.simps [simp del]

lemma div_bounds:
  fixes n x :: int
  assumes "0 < n"
  shows "x - (n - 1) \<le> n * (x div n)" "n * (x div n) \<le> x"
proof -
  have e: "n * (x div n) + x mod n = x" by simp
  have m: "0 \<le> x mod n" "x mod n < n" using assms by simp_all
  show "x - (n - 1) \<le> n * (x div n)" "n * (x div n) \<le> x" using e m by linarith+
qed

lemma DayFromYear_bounds:
  "146097 * (y - 1970) - 506 \<le> 400 * DayFromYear y"
  "400 * DayFromYear y \<le> 146097 * (y - 1970) + 589"
proof -
  define P where "P = 4 * ((y - 1969) div 4)"
  define Q where "Q = 100 * ((y - 1901) div 100)"
  define R where "R = 400 * ((y - 1601) div 400)"
  define Z where "Z = 400 * DayFromYear y"
  have a: "y - 1972 \<le> P" "P \<le> y - 1969"
    using div_bounds [of 4 "y - 1969"] by (simp_all add: P_def)
  have b: "y - 2000 \<le> Q" "Q \<le> y - 1901"
    using div_bounds [of 100 "y - 1901"] by (simp_all add: Q_def)
  have c: "y - 2000 \<le> R" "R \<le> y - 1601"
    using div_bounds [of 400 "y - 1601"] by (simp_all add: R_def)
  have e: "Z = 146000 * (y - 1970) + 100 * P - 4 * Q + R"
    by (simp add: Z_def DayFromYear_def P_def Q_def R_def)
  show "146097 * (y - 1970) - 506 \<le> 400 * DayFromYear y"
    unfolding Z_def [symmetric] using e a b c by (simp add: algebra_simps)
  show "400 * DayFromYear y \<le> 146097 * (y - 1970) + 589"
    unfolding Z_def [symmetric] using e a b c by (simp add: algebra_simps)
qed

lemma YearFromTime_bounds:
  "DayFromYear (YearFromTime t) \<le> Day t \<and> Day t < DayFromYear (YearFromTime t + 1)"
proof -
  define d where "d = Day t"
  define k where "k = (400 * d) div 146097"
  define y where "y = 1970 + k"
  have k: "146097 * k \<le> 400 * d" "400 * d < 146097 * k + 146097"
    using div_bounds [of 146097 "400 * d"] by (simp_all add: k_def)
  have "400 * DayFromYear (y - 1) \<le> 400 * d - 145508"
    using DayFromYear_bounds(2) [of "y - 1"] k(1) unfolding y_def by (simp add: algebra_simps)
  then have lo: "DayFromYear (y - 1) \<le> d" by linarith
  have "400 * d + 145591 < 400 * DayFromYear (y + 2)"
    using DayFromYear_bounds(1) [of "y + 2"] k(2) unfolding y_def by (simp add: algebra_simps)
  then have hi: "d < DayFromYear (y + 2)" by linarith
  have yr: "YearFromTime t =
      (if DayFromYear (y + 1) \<le> d then y + 1 else if DayFromYear y \<le> d then y else y - 1)"
    by (simp add: YearFromTime_def Let_def d_def y_def k_def)
  show ?thesis
  proof (cases "DayFromYear (y + 1) \<le> d")
    case True
    have "y + 1 + 1 = y + 2" by simp
    with True hi show ?thesis unfolding yr d_def [symmetric] by (simp add: add.commute)
  next
    case False
    show ?thesis
    proof (cases "DayFromYear y \<le> d")
      case True
      with False show ?thesis unfolding yr d_def [symmetric] by simp
    next
      case n: False
      have "y - 1 + 1 = y" by simp
      with False n lo show ?thesis unfolding yr d_def [symmetric] by simp
    qed
  qed
qed

lemma MonthFromTime_range: "0 \<le> MonthFromTime t \<and> MonthFromTime t \<le> 11"
  by (simp add: MonthFromTime_def Let_def)

lemma MakeDay_same_month:
  "MakeDay (YearFromTime t) (MonthFromTime t) dt = Day t - DateFromTime t + dt"
proof -
  have m: "MonthFromTime t div 12 = 0" "MonthFromTime t mod 12 = MonthFromTime t"
    using MonthFromTime_range [of t] by auto
  show ?thesis
    by (simp add: MakeDay_def Let_def m DateFromTime_def DayWithinYear_def InLeapYear_def)
qed

lemma Day_TimeWithinDay: "Day t * msPerDay + TimeWithinDay t = t"
  by (simp add: Day_def TimeWithinDay_def)

lemma ToIntegerOrInfinity_of_int: "ToIntegerOrInfinity (of_int n) = n"
  by (simp add: ToIntegerOrInfinity_def)

lemma ToIntegerOrInfinity_diff: "ToIntegerOrInfinity (of_int a - of_int b) = a - b"
  using ToIntegerOrInfinity_of_int [of "a - b"] by simp

text \<open>
  On a host whose local time has a fixed offset from UTC, \<^verbatim>\<open>setDate\<close> to the day of the
  month less \<open>n\<close> moves the time value back by \<open>n\<close> days, or makes the date invalid when
  that leaves the range of time values.
\<close>

lemma setDate_days_back:
  "setDate (fixed_zone c) (Some t0) (Exact (of_int (DateFromTime (LocalTime (fixed_zone c) t0) - n)))
     = TimeClip (t0 - n * msPerDay)"
proof -
  let ?t = "t0 + c"
  have "MakeDate (MakeDay (YearFromTime ?t) (MonthFromTime ?t) (DateFromTime ?t - n)) (TimeWithinDay ?t)
          = (Day ?t * msPerDay + TimeWithinDay ?t) - n * msPerDay"
    by (simp add: MakeDay_same_month MakeDate_def algebra_simps)
  also have "\<dots> = ?t - n * msPerDay"
    by (simp only: Day_TimeWithinDay)
  finally show ?thesis
    by (simp add: setDate_def LocalTime_def UTC_def fixed_zone_def Let_def ToIntegerOrInfinity_diff)
qed

lemma Day_days_back: "Day (t - n * msPerDay) = Day t - n"
  by (simp add: Day_def msPerDay_def)

subsection \<open>Numbers\<close>

lemma representable_of_int: "representable (of_int k) = (\<bar>k\<bar> \<le> 9007199254740992)"
  by (simp add: representable_def)

text \<open>
  \<^verbatim>\<open>parseInt\<close> gives \<^verbatim>\<open>NaN\<close>, an integer up to \<open>2^53\<close> in magnitude, or the rounding of
  an integer beyond.
\<close>

lemma parseInt_form:
  "\<exists>(Z :: string) m. parseInt s = (if Z = [] then NaN else if \<bar>m\<bar> \<le> 9007199254740992 then Exact (of_int m)
                         else Rounded (of_int m))"
  unfolding parseInt_def Let_def by (rule exI, rule exI, rule refl)

lemma parseInt_cases:
  "parseInt s = NaN \<or> (\<exists>k. parseInt s = Exact (of_int k) \<and> \<bar>k\<bar> \<le> 9007199254740992)
   \<or> (\<exists>k. parseInt s = Rounded (of_int k) \<and> \<bar>k\<bar> > 9007199254740992)"
proof -
  obtain Z :: string and m where "parseInt s = (if Z = [] then NaN else if \<bar>m\<bar> \<le> 9007199254740992 then Exact (of_int m)
                         else Rounded (of_int m))"
    using parseInt_form by blast
  then show ?thesis
    by (cases "Z = []"; cases "\<bar>m\<bar> \<le> 9007199254740992") auto
qed

text \<open>
  So \<^verbatim>\<open>getDate() - days\<close> is rounded only when it is about \<open>2^53\<close> or more in
  magnitude: a day number that far away is outside the range of time values.
\<close>

lemma days_Rounded:
  assumes "num_minus (Exact (of_int d)) (parseInt s) = Rounded q"
  shows "\<bar>q\<bar> + of_int \<bar>d\<bar> > 9007199254740992"
proof -
  consider "parseInt s = NaN" | k where "parseInt s = Exact (of_int k)"
    | k where "parseInt s = Rounded (of_int k)" "\<bar>k\<bar> > 9007199254740992"
    using parseInt_cases [of s] by blast
  then show ?thesis
  proof cases
    case 1
    then show ?thesis using assms by (simp add: num_minus_def)
  next
    case 2
    have "representable (of_int d - of_int k) = (\<bar>d - k\<bar> \<le> 9007199254740992)"
      using representable_of_int [of "d - k"] by simp
    then have "q = of_int (d - k)" "\<bar>d - k\<bar> > 9007199254740992"
      using assms 2 by (auto simp: num_minus_def split: if_splits)
    then have "\<bar>q\<bar> > 9007199254740992"
      by (metis of_int_abs of_int_less_iff of_int_numeral)
    then show ?thesis by linarith
  next
    case 3
    then have q: "q = of_int (d - k)"
      using assms by (simp add: num_minus_def)
    have "\<bar>d - k\<bar> + \<bar>d\<bar> > 9007199254740992"
      using 3(2) by linarith
    then have "(of_int (\<bar>d - k\<bar> + \<bar>d\<bar>) :: rat) > of_int 9007199254740992"
      by (simp only: of_int_less_iff)
    then show ?thesis
      unfolding q by simp
  qed
qed

subsection \<open>The date part of an ISO string\<close>

lemma dec_digits: "set (dec n) \<subseteq> set ''0123456789''"
proof (induction n rule: dec.induct)
  case (1 n)
  have k: "\<And>k. k < 10 \<Longrightarrow> ''0123456789'' ! k \<in> set ''0123456789''"
    by (rule nth_mem) simp
  show ?case
  proof (cases "n < 10")
    case True
    then show ?thesis using k [of n] by (subst dec.simps) simp
  next
    case False
    then show ?thesis using 1 k [of "n mod 10"] by (subst dec.simps) simp
  qed
qed

lemma takeWhile_upto: "x \<notin> set xs \<Longrightarrow> takeWhile (\<lambda>c. c \<noteq> x) (xs @ x # ys) = xs"
  by (induction xs) auto

lemma dec_no_T: "CHR ''T'' \<notin> set (dec n)"
  using dec_digits [of n] by auto

lemma pad_no_T: "CHR ''T'' \<notin> set (pad w n)"
  by (simp add: pad_def dec_no_T)

lemma iso_date_no_T: "CHR ''T'' \<notin> set (iso_date t)"
  by (simp add: iso_date_def year_str_def pad_no_T)

lemma split_T_first_iso: "split_T_first (iso_date t @ CHR ''T'' # rest) = iso_date t"
  by (simp add: split_T_first_def takeWhile_upto iso_date_no_T)

lemma toISOString_date: "map_sum id split_T_first (toISOString (Some t)) = Inr (iso_date t)"
  by (simp add: toISOString_def split_T_first_iso)

lemma formatDate_today: "formatDate z now ''today'' = Inr (iso_date now)"
  by (simp add: formatDate_def toISOString_date)

text \<open>The two normalizers have the same body.\<close>

lemma formatDateForMetricool_eq: "formatDateForMetricool = formatDate"
  by (intro ext) (simp add: formatDateForMetricool_def formatDate_def)

subsection \<open>Relative date tokens\<close>

text \<open>
  C1. A token containing \<^verbatim>\<open>daysAgo\<close> whose prefix is not a number is not returned
  unmodified: \<^verbatim>\<open>parseInt\<close> gives \<^verbatim>\<open>NaN\<close>, \<^verbatim>\<open>setDate(NaN)\<close> makes the date invalid and
  \<^verbatim>\<open>toISOString\<close> throws a \<^verbatim>\<open>RangeError\<close>, whatever the clock and the time zone.
\<close>

theorem formatDate_malformed_throws:
  "formatDate z now ''abcdaysAgo'' = Inl (JsError ''RangeError'' ''Invalid time value'')
   \<and> formatDateForMetricool z now ''abcdaysAgo'' = Inl (JsError ''RangeError'' ''Invalid time value'')"
proof -
  have p: "parseInt ''abc'' = NaN"
    by (simp add: parseInt_def Let_def white_1byte_def white_3bytes_def radix_digit_def digit_of_def)
  show ?thesis
    by (simp add: formatDateForMetricool_eq formatDate_def p setDate_def num_minus_def getDate_def
        toISOString_def Let_def)
qed

text \<open>
  C2. The normalizer moves the date with \<^verbatim>\<open>setDate\<close> and \<^verbatim>\<open>getDate\<close>, which work in
  the host's local time, and prints it with \<^verbatim>\<open>toISOString\<close>, which works in UTC. On a
  host in US Eastern time, at the reference instant 2024-03-15T23:30Z (19:30 local),
  \<^verbatim>\<open>today\<close> is 2024-03-15 but \<^verbatim>\<open>7daysAgo\<close> is 2024-03-09, six days before and not seven:
  19:30 local on 8 March, before daylight saving time began, is 00:30Z on 9 March. The
  date seven days before the reference is 2024-03-08.
\<close>

theorem formatDate_dst_six_days:
  "formatDate new_york_zone 1710545400000 ''today'' = Inr ''2024-03-15''
   \<and> formatDate new_york_zone 1710545400000 ''7daysAgo'' = Inr ''2024-03-09''
   \<and> formatDateForMetricool new_york_zone 1710545400000 ''today'' = Inr ''2024-03-15''
   \<and> formatDateForMetricool new_york_zone 1710545400000 ''7daysAgo'' = Inr ''2024-03-09''
   \<and> iso_date (1710545400000 - 7 * msPerDay) = ''2024-03-08''"
  by code_simp

text \<open>
  Besides, a day count that leaves the range of \<^verbatim>\<open>Date\<close> makes the normalizer throw, on
  any host.
\<close>

lemma formatDate_out_of_range:
  "formatDate (fixed_zone 0) 1710504000000 ''1000000000daysAgo''
     = Inl (JsError ''RangeError'' ''Invalid time value'')"
  by code_simp

subsection \<open>Sequencing\<close>

lemma step_Inl: "step evs (Inl e) k = (Inl e, evs)"
  by (simp add: step_def)

lemma step_Inr: "step evs (Inr a) k = (case k a of (res, t) \<Rightarrow> (res, evs @ t))"
  by (simp add: step_def)

lemma map_of_opt_field: "k \<noteq> k' \<Longrightarrow> map_of (opt_field k' v @ rest) k = map_of rest k"
  by (cases v) (simp_all add: opt_field_def)

subsection \<open>Account lookup\<close>


lemma CUSTOMER_default:
  "map_of CUSTOMER_MAPPING ''default''
     = Some \<lparr>customerId = ''7116961973'', c_name = ''Art Unlimited'', hasGoogleAds = False\<rparr>"
  by (simp add: CUSTOMER_MAPPING_def)

lemma BLOG_default:
  "map_of BLOG_MAPPING ''default'' = Some \<lparr>blogId = ''1920806'', b_name = ''Straightline Roofing''\<rparr>"
  by (simp add: BLOG_MAPPING_def)

lemma lookup_config_default:
  assumes "map_of table ''default'' = Some c0"
  shows "lookup_config table k \<noteq> Undefined"
  using assms
  by (simp add: lookup_config_def get_property_def or_else_def split: option.split property.split)

lemma require_object_lookup:
  assumes "map_of table ''default'' = Some c0"
  shows "require_object (lookup_config table k) = Inr ()"
  using lookup_config_default [OF assms, of k]
  by (cases "lookup_config table k") (simp_all add: require_object_def)

text \<open>
  An id that is neither a key of the table nor the name of an inherited property gets
  the entry stored under \<^verbatim>\<open>'default'\<close>.
\<close>

lemma lookup_config_ordinary_id:
  assumes "k \<notin> set (map fst table)" "k \<notin> set Object_prototype_keys"
  shows "lookup_config table k = get_property table ''default''"
proof -
  have "map_of table k = None"
    using assms(1) by (simp add: map_of_eq_None_iff)
  then show ?thesis
    using assms(2) by (simp add: lookup_config_def get_property_def or_else_def)
qed

text \<open>
  C7. The tables are object literals read with \<^verbatim>\<open>TABLE[companyId] || TABLE['default']\<close>.
  The tenant id \<^verbatim>\<open>constructor\<close> is not a key of any of the three tables, yet
  \<^verbatim>\<open>TABLE['constructor']\<close> is the function every object inherits from
  \<^verbatim>\<open>Object.prototype\<close>, which is truthy: the lookup returns it, not the entry stored
  under \<^verbatim>\<open>'default'\<close>. Read as an account, it has no customer, property or blog id, and
  its \<^verbatim>\<open>name\<close> is \<^verbatim>\<open>Object\<close>.
\<close>

theorem lookup_inherited_not_default:
  "''constructor'' \<notin> set (map fst CUSTOMER_MAPPING)
   \<and> ''constructor'' \<notin> set (map fst PROPERTY_MAPPING)
   \<and> ''constructor'' \<notin> set (map fst BLOG_MAPPING)
   \<and> lookup_config CUSTOMER_MAPPING ''constructor'' = Inherited ''constructor''
   \<and> lookup_config CUSTOMER_MAPPING ''constructor'' \<noteq> get_property CUSTOMER_MAPPING ''default''
   \<and> lookup_config PROPERTY_MAPPING ''constructor'' = Inherited ''constructor''
   \<and> lookup_config PROPERTY_MAPPING ''constructor'' \<noteq> get_property PROPERTY_MAPPING ''default''
   \<and> lookup_config BLOG_MAPPING ''constructor'' = Inherited ''constructor''
   \<and> lookup_config BLOG_MAPPING ''constructor'' \<noteq> get_property BLOG_MAPPING ''default''
   \<and> field customerId (lookup_config CUSTOMER_MAPPING ''constructor'') = None
   \<and> name_field c_name (lookup_config CUSTOMER_MAPPING ''constructor'') = Some ''Object''"
  by (simp add: lookup_config_def get_property_def or_else_def Object_prototype_keys_def
      CUSTOMER_MAPPING_def PROPERTY_MAPPING_def BLOG_MAPPING_def field_def name_field_def)

subsection \<open>Requests without a token\<close>

text \<open>
  C8. On each of the three routes, a request whose \<^verbatim>\<open>token\<close> parameter is absent (or
  empty) is answered with status 401 and the document \<^verbatim>\<open>{error: 'No token provided'}\<close>,
  and no external call is issued: neither the identity lookup nor a provider query.
\<close>

theorem missing_token_401:
  assumes "falsy (q_token req)"
  shows "ga4_GET pf pct h gw req = (Response 401 (JObj [(''error'', JStr ''No token provided'')]), [])
    \<and> ads_GET h aw req = (Response 401 (JObj [(''error'', JStr ''No token provided'')]), [])
    \<and> metricool_GET h mw req = (Response 401 (JObj [(''error'', JStr ''No token provided'')]), [])"
  using assms by (simp add: ga4_GET_def ads_GET_def metricool_GET_def Let_def)

theorem missing_token_401_witness:
  "falsy (q_token (sample_request\<lparr>q_token := None\<rparr>))
   \<and> ga4_GET JStr id sample_host sample_ga4_world (sample_request\<lparr>q_token := None\<rparr>)
        = (Response 401 (JObj [(''error'', JStr ''No token provided'')]), [])
   \<and> ads_GET sample_host sample_ads_world (sample_request\<lparr>q_token := None\<rparr>)
        = (Response 401 (JObj [(''error'', JStr ''No token provided'')]), [])
   \<and> metricool_GET sample_host sample_metricool_world (sample_request\<lparr>q_token := None\<rparr>)
        = (Response 401 (JObj [(''error'', JStr ''No token provided'')]), [])"
proof -
  have f: "falsy (q_token (sample_request\<lparr>q_token := None\<rparr>))"
    by (simp add: falsy_def)
  show ?thesis
    using missing_token_401 [OF f, of JStr id sample_host sample_ga4_world sample_ads_world
        sample_metricool_world] f
    by simp
qed

subsection \<open>Tenant resolution\<close>

lemma companyId_or_default_throw: "companyId_or_default (Inl e) = ''default''"
  by (simp add: companyId_or_default_def)

lemma companyId_or_default_absent: "companyId_or_default (Inr None) = ''default''"
  by (simp add: companyId_or_default_def or_default_def)

text \<open>
  C5. The Google Ads and Metricool routes wrap the identity lookup in a \<^verbatim>\<open>try\<close> of its
  own and continue with \<^verbatim>\<open>'default'\<close> (the two lemmas above). The web-analytics route
  does not: when \<^verbatim>\<open>getTokenPayload\<close> throws, the request ends in the outer \<^verbatim>\<open>catch\<close> with
  status 500, before any report is issued.
\<close>

theorem ga4_identity_failure_500:
  "ga4_GET pf pct (h\<lparr>copilotApi := None, getTokenPayload := Inl e\<rparr>) w
       \<lparr>q_token = Some (c # cs), q_startDate = s1, q_endDate = s2\<rparr>
     = (Response 500 (JObj [(''error'', JStr ''Failed to fetch analytics data''),
                            (''details'', JStr (err_message e))]),
        [GetTokenPayload (c # cs)])"
  by (simp add: ga4_GET_def ga4_try_def Let_def falsy_def or_default_def thrown_def step_Inl step_Inr)

subsection \<open>The advertising route\<close>

text \<open>The path on which nothing fails: both queries are issued and a record is returned.\<close>

lemma ads_GET_success:
  assumes tok: "q_token req = Some token" "token \<noteq> []"
    and env: "missingVars (env h) ads_requiredEnvVars = []"
    and cop: "copilotApi h = None"
    and cl: "GoogleAdsApi w = None" "Customer w = None"
    and d: "formatDate (zone h) (clock h 0) (or_default (q_startDate req) ''30daysAgo'') = Inr startStr"
           "formatDate (zone h) (clock h 1) (or_default (q_endDate req) ''today'') = Inr endStr"
    and q: "campaignQuery w = Inr campaigns" "metricsQuery w = Inr overallMetrics"
  shows "ads_GET h w req =
     (let companyId = companyId_or_default (getTokenPayload h);
          customerConfig = lookup_config CUSTOMER_MAPPING companyId;
          customer_id = template_str (field customerId customerConfig)
      in (Response 200 (JObj
            ([(''companyId'', JStr companyId)]
             @ opt_field ''companyName'' (map_option JStr (name_field c_name customerConfig))
             @ opt_field ''customerId'' (map_option JStr (field customerId customerConfig))
             @ [(''dateRange'', dateRange_doc (or_default (q_startDate req) ''30daysAgo'')
                                             (or_default (q_endDate req) ''today'')),
                (''metrics'', overall_metrics overallMetrics),
                (''campaigns'', JArr (map campaign_doc campaigns))])),
          [GetTokenPayload token,
           CampaignQuery customer_id (remove_hyphens startStr) (remove_hyphens endStr),
           MetricsQuery customer_id (remove_hyphens startStr) (remove_hyphens endStr)]))"
proof -
  have ro: "require_object (lookup_config CUSTOMER_MAPPING k) = Inr ()" for k
    by (rule require_object_lookup [OF CUSTOMER_default])
  have t: "falsy (q_token req) = False" "or_default (q_token req) [] = token"
    using tok by (simp_all add: falsy_def or_default_def)
  show ?thesis
    unfolding ads_GET_def ads_try_def Let_def
    by (simp add: t env cop cl d q ro thrown_def step_Inl step_Inr finish_def promise_all2_def
        del: One_nat_def)
qed

lemma sample_dates:
  "formatDate (fixed_zone 0) 1710504000000 ''7daysAgo'' = Inr ''2024-03-08''"
  "formatDate (fixed_zone 0) 1710504000000 ''today'' = Inr ''2024-03-15''"
  by code_simp+

text \<open>
  C3. The handler never reads \<^verbatim>\<open>hasGoogleAds\<close>. For the tenant \<^verbatim>\<open>7d52dc8e-...\<close>, whose
  flag is false, it issues both provider queries and answers 200 with a metrics
  record that carries no \<^verbatim>\<open>hasGoogleAds\<close> field, where the claim expects a not-configured
  result and no query.
\<close>

theorem ads_flag_ignored:
  "map_option hasGoogleAds (map_of CUSTOMER_MAPPING ''7d52dc8e-c603-4c7e-ad27-60c15a86c12f'') = Some False
   \<and> snd (ads_GET sample_host sample_ads_world sample_request)
       = [GetTokenPayload ''t'',
          CampaignQuery ''1196391424'' ''20240308'' ''20240315'',
          MetricsQuery ''1196391424'' ''20240308'' ''20240315'']
   \<and> status (fst (ads_GET sample_host sample_ads_world sample_request)) = 200
   \<and> json_get (body (fst (ads_GET sample_host sample_ads_world sample_request))) ''hasGoogleAds'' = None"
proof -
  have cfg: "lookup_config CUSTOMER_MAPPING ''7d52dc8e-c603-4c7e-ad27-60c15a86c12f''
      = Own \<lparr>customerId = ''1196391424'', c_name = ''Art Unlimited'', hasGoogleAds = False\<rparr>"
    by (simp add: lookup_config_def get_property_def or_else_def CUSTOMER_MAPPING_def)
  have run: "ads_GET sample_host sample_ads_world sample_request =
     (Response 200 (JObj
        [(''companyId'', JStr ''7d52dc8e-c603-4c7e-ad27-60c15a86c12f''),
         (''companyName'', JStr ''Art Unlimited''),
         (''customerId'', JStr ''1196391424''),
         (''dateRange'', dateRange_doc ''7daysAgo'' ''today''),
         (''metrics'', overall_metrics [sample_ads_row]),
         (''campaigns'', JArr (map campaign_doc [sample_ads_row]))]),
      [GetTokenPayload ''t'',
       CampaignQuery ''1196391424'' ''20240308'' ''20240315'',
       MetricsQuery ''1196391424'' ''20240308'' ''20240315''])"
    by (subst ads_GET_success [where token = "''t''" and startStr = "''2024-03-08''"
          and endStr = "''2024-03-15''" and campaigns = "[sample_ads_row]"
          and overallMetrics = "[sample_ads_row]"])
       (simp_all add: sample_host_def sample_request_def sample_ads_world_def or_default_def
          missingVars_def ads_requiredEnvVars_def falsy_def sample_dates companyId_or_default_def cfg
          field_def name_field_def template_str_def opt_field_def remove_hyphens_def Let_def)
  show ?thesis
    by (simp add: run json_get_def CUSTOMER_MAPPING_def)
qed




subsection \<open>The web-analytics route\<close>




lemma doc_fields3:
  assumes "k \<noteq> k1" "k \<noteq> k2" "k \<noteq> k3"
  shows "json_get (JObj ((k1, x) # opt_field k2 y @ opt_field k3 z @ rest)) k = map_of rest k"
  using assms by (simp add: json_get_def map_of_opt_field del: map_of_append)

text \<open>
  A top-pages report that answers without rows gives the empty list: that is the one
  way in which \<^verbatim>\<open>topPages\<close> is \<^verbatim>\<open>[]\<close>.
\<close>

lemma topPages_no_rows: "topPages None = JArr [] \<and> topPages (Some []) = JArr []"
  by (simp add: topPages_def rows_map_def)


subsection \<open>The social-media route\<close>

text \<open>
  The path on which the configuration is complete and both dates are normalised: the
  three calls are issued whatever each of them answers, and the response is 200.
\<close>

lemma metricool_GET_run:
  assumes tok: "q_token req = Some token" "token \<noteq> []"
    and env: "missingVars (env h) metricool_requiredEnvVars = []"
    and cop: "copilotApi h = None"
    and d: "formatDateForMetricool (zone h) (clock h 0) (or_default (q_startDate req) ''30daysAgo'') = Inr fromDate"
           "formatDateForMetricool (zone h) (clock h 1) (or_default (q_endDate req) ''today'') = Inr toDate"
  shows "metricool_GET h w req =
     (let companyId = companyId_or_default (getTokenPayload h);
          blogConfig = lookup_config BLOG_MAPPING companyId;
          params = [(''userId'', template_str (env h ''METRICOOL_USER_ID'')),
                    (''blogId'', template_str (field blogId blogConfig))]
      in (Response 200 (JObj
            ([(''companyId'', JStr companyId)]
             @ opt_field ''companyName'' (map_option JStr (name_field b_name blogConfig))
             @ opt_field ''blogId'' (map_option JStr (field blogId blogConfig))
             @ [(''dateRange'', dateRange_doc (or_default (q_startDate req) ''30daysAgo'')
                                             (or_default (q_endDate req) ''today'')),
                (''profile'', caught (callMetricoolApi w ''/admin/simpleProfiles'')),
                (''stats'', caught (callMetricoolApi w ''/statistics/summary'')),
                (''posts'', caught (callMetricoolApi w ''/posts/list''))])),
          [GetTokenPayload token,
           MetricoolCall ''/admin/simpleProfiles'' params,
           MetricoolCall ''/statistics/summary'' (params @ [(''from'', fromDate), (''to'', toDate)]),
           MetricoolCall ''/posts/list'' (params @ [(''limit'', ''10'')])]))"
proof -
  have ro: "require_object (lookup_config BLOG_MAPPING k) = Inr ()" for k
    by (rule require_object_lookup [OF BLOG_default])
  have t: "falsy (q_token req) = False" "or_default (q_token req) [] = token"
    using tok by (simp_all add: falsy_def or_default_def)
  show ?thesis
    unfolding metricool_GET_def metricool_try_def Let_def
    by (simp add: t env cop d ro thrown_def step_Inl step_Inr finish_def del: One_nat_def)
qed

text \<open>
  C9. Whenever the request carries a token, the configuration is complete and both
  dates are normalised, the response is 200 and each of \<^verbatim>\<open>profile\<close>, \<^verbatim>\<open>stats\<close> and
  \<^verbatim>\<open>posts\<close> depends on its own call only: it is \<^verbatim>\<open>null\<close> when that call fails and the
  call's answer when it succeeds, whatever the other two calls do. All three calls are
  issued in every case.
\<close>

theorem social_sections_independent:
  assumes tok: "q_token req = Some token" "token \<noteq> []"
    and env: "missingVars (env h) metricool_requiredEnvVars = []"
    and cop: "copilotApi h = None"
    and d: "formatDateForMetricool (zone h) (clock h 0) (or_default (q_startDate req) ''30daysAgo'') = Inr fromDate"
           "formatDateForMetricool (zone h) (clock h 1) (or_default (q_endDate req) ''today'') = Inr toDate"
  shows "\<exists>doc. fst (metricool_GET h w req) = Response 200 doc
    \<and> json_get doc ''profile''
         = Some (case callMetricoolApi w ''/admin/simpleProfiles'' of Inl e \<Rightarrow> JNull | Inr v \<Rightarrow> v)
    \<and> json_get doc ''stats''
         = Some (case callMetricoolApi w ''/statistics/summary'' of Inl e \<Rightarrow> JNull | Inr v \<Rightarrow> v)
    \<and> json_get doc ''posts''
         = Some (case callMetricoolApi w ''/posts/list'' of Inl e \<Rightarrow> JNull | Inr v \<Rightarrow> v)
    \<and> length (filter is_provider_query (snd (metricool_GET h w req))) = 3"
  unfolding metricool_GET_run [OF tok env cop d] Let_def fst_conv snd_conv
  by (intro exI conjI, rule refl)
     (simp_all add: doc_fields3 caught_def is_provider_query_def)

theorem social_sections_independent_witness:
  "\<exists>doc. fst (metricool_GET sample_host sample_metricool_world sample_request) = Response 200 doc
    \<and> json_get doc ''profile'' = Some (JObj [(''endpoint'', JStr ''/admin/simpleProfiles'')])
    \<and> json_get doc ''stats'' = Some (JObj [(''endpoint'', JStr ''/statistics/summary'')])
    \<and> json_get doc ''posts'' = Some JNull"
proof -
  have h: "q_token sample_request = Some ''t''" "''t'' \<noteq> []"
    "missingVars (env sample_host) metricool_requiredEnvVars = []" "copilotApi sample_host = None"
    by (simp_all add: sample_host_def sample_request_def missingVars_def metricool_requiredEnvVars_def falsy_def)
  have d: "formatDateForMetricool (zone sample_host) (clock sample_host 0)
             (or_default (q_startDate sample_request) ''30daysAgo'') = Inr ''2024-03-08''"
    "formatDateForMetricool (zone sample_host) (clock sample_host 1)
             (or_default (q_endDate sample_request) ''today'') = Inr ''2024-03-15''"
    by (simp_all add: sample_host_def sample_request_def or_default_def formatDateForMetricool_eq sample_dates)
  have c: "callMetricoolApi sample_metricool_world ''/admin/simpleProfiles''
             = Inr (JObj [(''endpoint'', JStr ''/admin/simpleProfiles'')])"
    "callMetricoolApi sample_metricool_world ''/statistics/summary''
             = Inr (JObj [(''endpoint'', JStr ''/statistics/summary'')])"
    "callMetricoolApi sample_metricool_world ''/posts/list'' = Inl (JsError ''Error'' ''Metricool API error: 500'')"
    by (simp_all add: sample_metricool_world_def)
  show ?thesis
    using social_sections_independent [OF h d, of sample_metricool_world] by (auto simp: c)
qed

subsection \<open>Default date range\<close>







end
